theory Spec2Isabelle
  imports Main
begin

section \<open>JavaScript values\<close>

text \<open>
  The values that flow through the facade \<^verbatim>\<open>TeamSpeak3.js\<close>. Numbers are the
  integer-valued ones (ids, ports, timers), with \<open>NaN\<close> apart; an object literal is the
  list of its own properties in insertion order; \<open>Buf\<close> is a Node \<^verbatim>\<open>Buffer\<close>,
  \<open>Fn name\<close> a function or class (opaque), and \<open>Err name message\<close> the error object
  \<^verbatim>\<open>new name(message)\<close>.
\<close>

datatype jsval =
    Undefined
  | Null
  | Bool bool
  | Num int
  | NaN
  | Str string
  | Buf string
  | Obj "(string \<times> jsval) list"
  | Arr "jsval list"
  | Fn string
  | Err string jsval

text \<open>A promise is modelled by the way it settles, or by \<open>Pending\<close> when it never does.\<close>

datatype promise = Fulfilled jsval | Rejected jsval | Pending

text \<open>Truthiness (\<^verbatim>\<open>Boolean(v)\<close>, \<^verbatim>\<open>if (v)\<close>, \<^verbatim>\<open>v ? a : b\<close>).\<close>

fun truthy :: "jsval \<Rightarrow> bool" where
  "truthy Undefined = False"
| "truthy Null = False"
| "truthy (Bool b) = b"
| "truthy (Num n) = (n \<noteq> 0)"
| "truthy NaN = False"
| "truthy (Str s) = (s \<noteq> [])"
| "truthy (Buf b) = True"
| "truthy (Obj kvs) = True"
| "truthy (Arr xs) = True"
| "truthy (Fn f) = True"
| "truthy (Err n m) = True"

text \<open>\<^verbatim>\<open>a || b\<close>: the left operand when it is truthy, the right one otherwise.\<close>

definition js_or :: "jsval \<Rightarrow> jsval \<Rightarrow> jsval" where
  "js_or a b = (if truthy a then a else b)"

text \<open>A parameter with a default value takes the default exactly when the argument is \<^verbatim>\<open>undefined\<close>.\<close>

definition default_param :: "jsval \<Rightarrow> jsval \<Rightarrow> jsval" where
  "default_param arg d = (if arg = Undefined then d else arg)"

text \<open>
  Reading a property \<^verbatim>\<open>v.k\<close>. Reading from \<^verbatim>\<open>undefined\<close> or \<^verbatim>\<open>null\<close> throws a
  TypeError (\<open>Inl\<close>); a missing property reads as \<^verbatim>\<open>undefined\<close>. Of the inherited
  properties only \<^verbatim>\<open>byteLength\<close> of a Buffer is read by the code below.
\<close>

definition TypeError :: "string \<Rightarrow> jsval" where
  "TypeError m = Err ''TypeError'' (Str m)"

definition ReferenceError :: "string \<Rightarrow> jsval" where
  "ReferenceError m = Err ''ReferenceError'' (Str m)"

definition own :: "(string \<times> jsval) list \<Rightarrow> string \<Rightarrow> jsval" where
  "own kvs k = (case map_of kvs k of None \<Rightarrow> Undefined | Some v \<Rightarrow> v)"

fun get_prop :: "jsval \<Rightarrow> string \<Rightarrow> jsval + jsval" where
  "get_prop Undefined k = Inl (TypeError (''Cannot read property '' @ k @ '' of undefined''))"
| "get_prop Null k = Inl (TypeError (''Cannot read property '' @ k @ '' of null''))"
| "get_prop (Obj kvs) k = Inr (own kvs k)"
| "get_prop (Buf b) k = Inr (if k = ''byteLength'' then Num (int (length b)) else Undefined)"
| "get_prop v k = Inr Undefined"

text \<open>
  Writing a property \<^verbatim>\<open>o[k] = v\<close>: an existing key keeps its place, a new key goes last.
\<close>

fun set_prop :: "(string \<times> jsval) list \<Rightarrow> string \<Rightarrow> jsval \<Rightarrow> (string \<times> jsval) list" where
  "set_prop [] k v = [(k, v)]"
| "set_prop ((k', v') # kvs) k v =
     (if k' = k then (k, v) # kvs else (k', v') # set_prop kvs k v)"

text \<open>\<^verbatim>\<open>k in o\<close> on the own properties of an object literal.\<close>

definition has_prop :: "(string \<times> jsval) list \<Rightarrow> string \<Rightarrow> bool" where
  "has_prop kvs k = (k \<in> set (map fst kvs))"

section \<open>The transport\<close>

text \<open>
  The class \<^verbatim>\<open>TS3Query\<close> is required from \<^verbatim>\<open>transport/TS3Query\<close> and is not part of
  the facade's file. The facade only calls its constructor and its methods
  \<^verbatim>\<open>keepAlive\<close>, \<^verbatim>\<open>antiSpam\<close>, \<^verbatim>\<open>on\<close> and \<^verbatim>\<open>execute\<close>; the transport object is
  therefore the trace of these calls. How an executed command settles is decided by
  the server: it is the parameter \<open>srv\<close>, which sees the trace so far and the arguments.
\<close>

datatype ts3call =
    New "jsval list"
  | KeepAlive
  | AntiSpam jsval
  | On string string
  | Execute "jsval list"

type_synonym TS3Query = "ts3call list"

type_synonym server = "TS3Query \<Rightarrow> jsval list \<Rightarrow> promise"

definition TS3Query_execute :: "server \<Rightarrow> jsval list \<Rightarrow> TS3Query \<Rightarrow> promise \<times> TS3Query" where
  "TS3Query_execute srv args q = (srv q args, q @ [Execute args])"

section \<open>The facade object\<close>

text \<open>
  The fields of a \<^verbatim>\<open>TeamSpeak3\<close> instance (\<^verbatim>\<open>this._config\<close>, the five caches and
  \<^verbatim>\<open>this._ts3\<close>), and the trace of the \<^verbatim>\<open>FileTransfer\<close> objects it has created
  (host, port, key, data).
\<close>

record TeamSpeak3 =
  config :: "(string \<times> jsval) list"
  clients :: jsval
  channels :: jsval
  servergroups :: jsval
  channelgroups :: jsval
  servers :: jsval
  ts3 :: TS3Query
  transfers :: "(jsval \<times> jsval \<times> jsval \<times> jsval) list"

text \<open>\<^verbatim>\<open>execute() { return this._ts3.execute(...arguments) }\<close>\<close>

definition execute :: "server \<Rightarrow> jsval list \<Rightarrow> TeamSpeak3 \<Rightarrow> promise \<times> TeamSpeak3" where
  "execute srv arguments this =
     (case TS3Query_execute srv arguments (ts3 this) of
        (p, q) \<Rightarrow> (p, this\<lparr>ts3 := q\<rparr>))"


text \<open>Sequencing of expressions that may throw: the first exception is the result.\<close>

definition bind :: "jsval + 'a \<Rightarrow> ('a \<Rightarrow> jsval + 'b) \<Rightarrow> jsval + 'b" where
  "bind m f = (case m of Inl e \<Rightarrow> Inl e | Inr v \<Rightarrow> f v)"

section \<open>The constructor\<close>

text \<open>
  \<^verbatim>\<open>parseInt\<close> is the built-in of the language; it is the parameter \<open>parseInt\<close>, which
  gives \<open>None\<close> for NaN and otherwise the integer parsed. \<open>number\<close> turns its result
  into a value.
\<close>

definition number :: "int option \<Rightarrow> jsval" where
  "number r = (case r of None \<Rightarrow> NaN | Some n \<Rightarrow> Num n)"

text \<open>The event handlers the constructor registers on the transport, in order.\<close>

definition handlers :: "ts3call list" where
  "handlers =
     [On ''cliententerview'' ''_evcliententerview'',
      On ''clientleftview'' ''_evclientleftview'',
      On ''serveredited'' ''_evserveredited'',
      On ''channeledited'' ''_evchanneledited'',
      On ''channelmoved'' ''_evchannelmoved'',
      On ''channeldeleted'' ''_evchanneldeleted'',
      On ''channelcreated'' ''_evchannelcreated'',
      On ''clientmoved'' ''_evclientmoved'',
      On ''textmessage'' ''_evtextmessage'',
      On ''connect'' ''connect'',
      On ''close'' ''close'',
      On ''error'' ''error'']"

text \<open>
  \<^verbatim>\<open>constructor(config = {})\<close>: builds \<^verbatim>\<open>this._config\<close> from the caller's object,
  empties the caches, creates the transport, then
  \<^verbatim>\<open>if (this._config.keepalive) this._ts3.keepAlive()\<close> and
  \<^verbatim>\<open>if (this._config.antispam) this._ts3.antiSpam(this._config.antispamtimer)\<close>,
  and registers the handlers.
\<close>

definition constructor :: "(jsval \<Rightarrow> int option) \<Rightarrow> jsval \<Rightarrow> jsval + TeamSpeak3" where
  "constructor parseInt arg =
     (let config = default_param arg (Obj []) in
      bind (get_prop config ''protocol'') (\<lambda>protocol.
      bind (get_prop config ''host'') (\<lambda>host.
      bind (get_prop config ''queryport'') (\<lambda>queryport.
      bind (get_prop config ''serverport'') (\<lambda>serverport.
      bind (get_prop config ''username'') (\<lambda>username.
      bind (get_prop config ''password'') (\<lambda>password.
      bind (get_prop config ''nickname'') (\<lambda>nickname.
      bind (get_prop config ''antispam'') (\<lambda>antispam.
      bind (get_prop config ''antispamtimer'') (\<lambda>antispamtimer.
      bind (get_prop config ''keepalive'') (\<lambda>keepalive.
        let cfg =
              [(''protocol'', js_or protocol (Str ''raw'')),
               (''host'', js_or host (Str ''127.0.0.1'')),
               (''queryport'', js_or (number (parseInt queryport)) (Num 10011)),
               (''serverport'', js_or (number (parseInt serverport)) (Bool False)),
               (''username'', js_or username (Bool False)),
               (''password'', js_or password (Bool False)),
               (''nickname'', js_or nickname (Bool False)),
               (''antispam'', Bool (truthy antispam)),
               (''antispamtimer'', js_or (number (parseInt antispamtimer)) (Num 350)),
               (''keepalive'', Bool (truthy keepalive))];
            q0 = [New [own cfg ''host'', own cfg ''queryport'', own cfg ''protocol'',
                       own cfg ''username'', own cfg ''password'']];
            q1 = (if truthy (own cfg ''keepalive'') then q0 @ [KeepAlive] else q0);
            q2 = (if truthy (own cfg ''antispam'')
                  then q1 @ [AntiSpam (own cfg ''antispamtimer'')] else q1)
        in Inr \<lparr>config = cfg, clients = Obj [], channels = Obj [], servergroups = Obj [],
                 channelgroups = Obj [], servers = Obj [], ts3 = q2 @ handlers,
                 transfers = []\<rparr>)))))))))))"

text \<open>What the transport has been asked to do.\<close>

fun keepalive_calls :: "TS3Query \<Rightarrow> nat" where
  "keepalive_calls [] = 0"
| "keepalive_calls (KeepAlive # q) = Suc (keepalive_calls q)"
| "keepalive_calls (c # q) = keepalive_calls q"

fun antispam_calls :: "TS3Query \<Rightarrow> jsval list" where
  "antispam_calls [] = []"
| "antispam_calls (AntiSpam t # q) = t # antispam_calls q"
| "antispam_calls (c # q) = antispam_calls q"

fun executed :: "TS3Query \<Rightarrow> jsval list list" where
  "executed [] = []"
| "executed (Execute args # q) = args # executed q"
| "executed (c # q) = executed q"

section \<open>Command builders\<close>

text \<open>
  \<^verbatim>\<open>serverStop(sid, msg) { return this.execute("serverstop", {sid: sid, reasonmsg: msg}) }\<close>
\<close>

definition serverStop :: "server \<Rightarrow> jsval \<Rightarrow> jsval \<Rightarrow> TeamSpeak3 \<Rightarrow> promise \<times> TeamSpeak3" where
  "serverStop srv sid msg this =
     execute srv [Str ''serverstop'', Obj [(''sid'', sid), (''reasonmsg'', msg)]] this"

text \<open>
  \<^verbatim>\<open>serverGroupAddPerm(sgid, perm, value, permsid = false, skip = 0, negate = 0)\<close>
\<close>

definition serverGroupAddPerm ::
  "server \<Rightarrow> jsval \<Rightarrow> jsval \<Rightarrow> jsval \<Rightarrow> jsval \<Rightarrow> jsval \<Rightarrow> jsval \<Rightarrow> TeamSpeak3
     \<Rightarrow> promise \<times> TeamSpeak3" where
  "serverGroupAddPerm srv sgid perm val permsid0 skip0 negate0 this =
     (let permsid = default_param permsid0 (Bool False);
          skip = default_param skip0 (Num 0);
          negate = default_param negate0 (Num 0);
          prop = [(''sgid'', sgid)];
          prop = set_prop prop (if truthy permsid then ''permsid'' else ''permid'') perm;
          prop = set_prop prop ''permvalue'' val;
          prop = set_prop prop ''permskip'' skip;
          prop = set_prop prop ''permnegated'' negate
      in execute srv [Str ''servergroupaddperm'', Obj prop] this)"

text \<open>
  \<^verbatim>\<open>complainDel(tdbid, fdbid = false)\<close>: the command is chosen by
  \<^verbatim>\<open>fdbid === false\<close>, and the same test guards \<^verbatim>\<open>prop.fcldbid = fdbid\<close>.
\<close>

definition complainDel :: "server \<Rightarrow> jsval \<Rightarrow> jsval \<Rightarrow> TeamSpeak3 \<Rightarrow> promise \<times> TeamSpeak3" where
  "complainDel srv tdbid fdbid0 this =
     (let fdbid = default_param fdbid0 (Bool False);
          cmd = (if fdbid = Bool False then ''complaindelall'' else ''complaindel'');
          prop = [(''tcldbid'', tdbid)];
          prop = (if fdbid = Bool False then set_prop prop ''fcldbid'' fdbid else prop)
      in execute srv [Str cmd, Obj prop] this)"

text \<open>
  \<^verbatim>\<open>complainAdd(dbid, message = "") { return this.execute("complainadd", {cldbid: dbid, message: message}) }\<close>
\<close>

definition complainAdd :: "server \<Rightarrow> jsval \<Rightarrow> jsval \<Rightarrow> TeamSpeak3 \<Rightarrow> promise \<times> TeamSpeak3" where
  "complainAdd srv dbid message0 this =
     (let message = default_param message0 (Str [])
      in execute srv [Str ''complainadd'', Obj [(''cldbid'', dbid), (''message'', message)]] this)"

text \<open>\<^verbatim>\<open>banAdd(ip, name, uid, time, reason)\<close>\<close>

definition banAdd ::
  "server \<Rightarrow> jsval \<Rightarrow> jsval \<Rightarrow> jsval \<Rightarrow> jsval \<Rightarrow> jsval \<Rightarrow> TeamSpeak3 \<Rightarrow> promise \<times> TeamSpeak3" where
  "banAdd srv ip name uid time reason this =
     (let props = [];
          props = (if truthy ip then set_prop props ''ip'' ip else props);
          props = (if truthy name then set_prop props ''name'' name else props);
          props = (if truthy uid then set_prop props ''uid'' uid else props);
          props = (if truthy time then set_prop props ''time'' time else props);
          props = set_prop props ''banreason'' (js_or reason (Str ''''))
      in execute srv [Str ''banadd'', Obj props] this)"

section \<open>Identifier resolution\<close>

text \<open>
  The names bound at the top level of the file (the eight \<^verbatim>\<open>const\<close> declarations and
  the class) and by Node's module wrapper. An identifier of a method body is looked up
  in the method's parameters, then here, then in the global object \<open>globals\<close>; one that
  is found nowhere throws a ReferenceError.
\<close>

definition module_scope :: "string list" where
  "module_scope =
     [''TS3Query'', ''FileTransfer'', ''TeamSpeakClient'', ''TeamSpeakChannel'',
      ''TeamSpeakServer'', ''TeamSpeakServerGroup'', ''TeamSpeakChannelGroup'',
      ''EventEmitter'', ''TeamSpeak3'',
      ''exports'', ''require'', ''module'', ''__filename'', ''__dirname'']"

definition resolve ::
  "(string \<times> jsval) list \<Rightarrow> (string \<Rightarrow> jsval option) \<Rightarrow> string \<Rightarrow> jsval + jsval" where
  "resolve params globals x =
     (case map_of params x of
        Some v \<Rightarrow> Inr v
      | None \<Rightarrow>
          if x \<in> set module_scope then Inr (Fn x)
          else (case globals x of
                  Some v \<Rightarrow> Inr v
                | None \<Rightarrow> Inl (ReferenceError (x @ '' is not defined''))))"

text \<open>
  \<^verbatim>\<open>messageUpdate(id, read) { return this.execute("messageupdateflag", {msgid: id, flag: flag}) }\<close>
  The object literal is evaluated before the call: \<^verbatim>\<open>id\<close>, then \<^verbatim>\<open>flag\<close>.
\<close>

definition messageUpdate_params :: "jsval \<Rightarrow> jsval \<Rightarrow> (string \<times> jsval) list" where
  "messageUpdate_params id' read = [(''id'', id'), (''read'', read)]"

definition messageUpdate ::
  "(string \<Rightarrow> jsval option) \<Rightarrow> server \<Rightarrow> jsval \<Rightarrow> jsval \<Rightarrow> TeamSpeak3
     \<Rightarrow> jsval + promise \<times> TeamSpeak3" where
  "messageUpdate globals srv id' read this =
     bind (resolve (messageUpdate_params id' read) globals ''id'') (\<lambda>msgid.
     bind (resolve (messageUpdate_params id' read) globals ''flag'') (\<lambda>flag.
       Inr (execute srv [Str ''messageupdateflag'', Obj [(''msgid'', msgid), (''flag'', flag)]]
              this)))"

section \<open>Cache clean-up after a server deselect\<close>

text \<open>
  \<^verbatim>\<open>_cacheCleanUp(promise)\<close>: when the given promise is fulfilled, the four caches are
  replaced by empty arrays and the result is passed on; a rejection is passed on.
\<close>

definition cacheCleanUp :: "promise \<times> TeamSpeak3 \<Rightarrow> promise \<times> TeamSpeak3" where
  "cacheCleanUp pt =
     (case pt of (p, this) \<Rightarrow>
        (case p of
           Fulfilled res \<Rightarrow>
             (Fulfilled res,
              this\<lparr>servergroups := Arr [], channels := Arr [], clients := Arr [],
                    channelgroups := Arr []\<rparr>)
         | Rejected e \<Rightarrow> (Rejected e, this)
         | Pending \<Rightarrow> (Pending, this)))"

definition logout :: "server \<Rightarrow> TeamSpeak3 \<Rightarrow> promise \<times> TeamSpeak3" where
  "logout srv this = cacheCleanUp (execute srv [Str ''logout''] this)"

definition useByPort :: "server \<Rightarrow> jsval \<Rightarrow> TeamSpeak3 \<Rightarrow> promise \<times> TeamSpeak3" where
  "useByPort srv port this = cacheCleanUp (execute srv [Str ''use'', Obj [(''port'', port)]] this)"

definition useBySid :: "server \<Rightarrow> jsval \<Rightarrow> TeamSpeak3 \<Rightarrow> promise \<times> TeamSpeak3" where
  "useBySid srv sid this = cacheCleanUp (execute srv [Str ''use'', Arr [sid]] this)"

section \<open>File upload\<close>

text \<open>
  \<^verbatim>\<open>ftInitUpload(transfer)\<close> fills in the missing fields of the transfer object and
  executes \<^verbatim>\<open>ftinitupload\<close>. \<open>rnd\<close> is the value of
  \<^verbatim>\<open>Math.floor(Math.random() * 10000)\<close>.
\<close>

definition ftInitUpload ::
  "server \<Rightarrow> int \<Rightarrow> (string \<times> jsval) list \<Rightarrow> TeamSpeak3 \<Rightarrow> promise \<times> TeamSpeak3" where
  "ftInitUpload srv rnd transfer0 this =
     (let transfer = (if \<not> has_prop transfer0 ''clientftfid''
                      then set_prop transfer0 ''clientftfid'' (Num rnd) else transfer0);
          transfer = (if \<not> has_prop transfer ''cid''
                      then set_prop transfer ''cid'' (Num 0) else transfer);
          transfer = (if \<not> has_prop transfer ''resume''
                      then set_prop transfer ''resume'' (Num 0) else transfer);
          transfer = (if \<not> has_prop transfer ''overwrite''
                      then set_prop transfer ''overwrite'' (Num 1) else transfer)
      in execute srv [Str ''ftinitupload'', Obj transfer] this)"

text \<open>\<^verbatim>\<open>s.split("/")\<close> on a string: the pieces between the separators, never an empty list.\<close>

fun split_on :: "char \<Rightarrow> string \<Rightarrow> string list" where
  "split_on c [] = [[]]"
| "split_on c (x # xs) =
     (if x = c then [] # split_on c xs
      else (case split_on c xs of
              [] \<Rightarrow> [[x]]
            | w # ws \<Rightarrow> (x # w) # ws))"

text \<open>
  In \<^verbatim>\<open>uploadFile\<close> the variable \<^verbatim>\<open>name\<close> is declared by \<^verbatim>\<open>var\<close> inside the
  promise executor: it exists from the start of the executor with the value
  \<^verbatim>\<open>undefined\<close> (\<open>None\<close>) and holds a string once it is assigned. Calling
  \<^verbatim>\<open>split\<close> on \<^verbatim>\<open>undefined\<close> throws a TypeError.
\<close>

definition split_method :: "string option \<Rightarrow> jsval + string list" where
  "split_method name =
     (case name of
        None \<Rightarrow> Inl (TypeError ''Cannot read property split of undefined'')
      | Some s \<Rightarrow> Inr (split_on CHR ''/'' s))"

text \<open>\<^verbatim>\<open>a.pop()\<close>: the last element (\<^verbatim>\<open>undefined\<close> on an empty array) and the rest.\<close>

definition pop :: "string list \<Rightarrow> string option \<times> string list" where
  "pop xs = (if xs = [] then (None, []) else (Some (last xs), butlast xs))"

text \<open>\<^verbatim>\<open>"/" + v\<close> for the result of \<^verbatim>\<open>pop\<close>.\<close>

definition slash_plus :: "string option \<Rightarrow> string" where
  "slash_plus v = ''/'' @ (case v of None \<Rightarrow> ''undefined'' | Some s \<Rightarrow> s)"

text \<open>\<^verbatim>\<open>if (typeof data === "string") data = Buffer.from(data)\<close>\<close>

definition to_buffer :: "jsval \<Rightarrow> jsval" where
  "to_buffer data = (case data of Str s \<Rightarrow> Buf s | _ \<Rightarrow> data)"

text \<open>
  The callback given to \<^verbatim>\<open>then\<close> on the promise of \<^verbatim>\<open>ftInitUpload\<close>. \<open>ftp\<close> is
  the class \<^verbatim>\<open>FileTransfer\<close> (not part of the facade's file): it decides how the upload
  to host and port with the given key and data settles. There is no rejection handler
  on the promise of \<^verbatim>\<open>ftInitUpload\<close>, and an exception inside the callback is not
  caught either: in both cases the promise of \<^verbatim>\<open>uploadFile\<close> never settles.
\<close>

definition upload_then ::
  "(jsval \<Rightarrow> jsval \<Rightarrow> jsval \<Rightarrow> jsval \<Rightarrow> promise) \<Rightarrow> jsval \<Rightarrow> promise \<times> TeamSpeak3
     \<Rightarrow> promise \<times> TeamSpeak3" where
  "upload_then ftp data pt =
     (case pt of (p, this) \<Rightarrow>
        (case p of
           Pending \<Rightarrow> (Pending, this)
         | Rejected e \<Rightarrow> (Pending, this)
         | Fulfilled res \<Rightarrow>
             (case get_prop res ''size'' of
                Inl e \<Rightarrow> (Pending, this)
              | Inr sz \<Rightarrow>
                  if sz = Num 0 then
                    (case get_prop res ''msg'' of
                       Inl e \<Rightarrow> (Pending, this)
                     | Inr msg \<Rightarrow> (Rejected (Err ''Error'' msg), this))
                  else
                    (case get_prop res ''port'' of
                       Inl e \<Rightarrow> (Pending, this)
                     | Inr port \<Rightarrow>
                         (case get_prop res ''ftkey'' of
                            Inl e \<Rightarrow> (Pending, this)
                          | Inr ftkey \<Rightarrow>
                              (let host = own (config this) ''host'' in
                               (ftp host port ftkey data,
                                this\<lparr>transfers :=
                                  transfers this @ [(host, port, ftkey, data)]\<rparr>)))))))"

text \<open>
  \<^verbatim>\<open>new Promise(executor)\<close>: an exception thrown by the executor rejects the promise.
\<close>

definition new_Promise :: "TeamSpeak3 \<Rightarrow> jsval + promise \<times> TeamSpeak3 \<Rightarrow> promise \<times> TeamSpeak3" where
  "new_Promise this r = (case r of Inl e \<Rightarrow> (Rejected e, this) | Inr pt \<Rightarrow> pt)"

text \<open>
  \<^verbatim>\<open>uploadFile(path, data, cid, cpw)\<close>. The executor's statements in order:
  \<^verbatim>\<open>path = name.split("/")\<close>, \<^verbatim>\<open>var name = "/"+path.pop()\<close>, the conversion of
  \<^verbatim>\<open>data\<close>, and the call of \<^verbatim>\<open>ftInitUpload\<close> with
  \<^verbatim>\<open>{ path, name, cid, cpw, size: data.byteLength }\<close>.
\<close>

definition uploadFile ::
  "server \<Rightarrow> (jsval \<Rightarrow> jsval \<Rightarrow> jsval \<Rightarrow> jsval \<Rightarrow> promise) \<Rightarrow> int
     \<Rightarrow> jsval \<Rightarrow> jsval \<Rightarrow> jsval \<Rightarrow> jsval \<Rightarrow> TeamSpeak3 \<Rightarrow> promise \<times> TeamSpeak3" where
  "uploadFile srv ftp rnd path0 data0 cid cpw this =
     new_Promise this
       (let name = None in
        bind (split_method name) (\<lambda>parts.
          let (popped, path) = pop parts;
              name = Some (slash_plus popped);
              data = to_buffer data0
          in bind (get_prop data ''byteLength'') (\<lambda>sz.
               Inr (upload_then ftp data
                      (ftInitUpload srv rnd
                         [(''path'', Arr (map Str path)),
                          (''name'', (case name of None \<Rightarrow> Undefined | Some s \<Rightarrow> Str s)),
                          (''cid'', cid), (''cpw'', cpw), (''size'', sz)]
                         this)))))"

section \<open>The command queue of the transport\<close>

text \<open>
  Modelled from the spec: the Command Queue of the transport (\<^verbatim>\<open>transport/TS3Query\<close>,
  which is not part of the facade's file), as the specification describes it.
  A pending command is in flight or waiting; \<open>settled\<close> marks a command whose completion
  handle has already failed with a timeout while its status line is still due.
  \<open>socket\<close> is everything written to the socket, in order, and \<open>answered\<close> the number
  of these writes whose response is over (ended by a status line, or cut by a teardown).
\<close>

record StatusLine =
  code :: int
  message :: string

datatype outcome =
    Success "string list"
  | CommandError int string
  | TimeoutError
  | ConnectionClosed

record 'c PendingCommand =
  command :: 'c
  in_flight :: bool
  settled :: bool

record 'c CommandQueue =
  fifo :: "'c PendingCommand list"
  rows :: "string list"
  socket :: "'c list"
  answered :: nat
  completions :: "('c \<times> outcome) list"

definition empty_queue :: "'c CommandQueue" where
  "empty_queue = \<lparr>fifo = [], rows = [], socket = [], answered = 0, completions = []\<rparr>"

text \<open>
  Modelled from the spec: writing a command to the socket puts it in flight; the rows
  of its result are "accumulated since it was put in flight", so they start empty.
\<close>

definition write_socket :: "'c \<Rightarrow> 'c CommandQueue \<Rightarrow> 'c CommandQueue" where
  "write_socket c s = s\<lparr>socket := socket s @ [c], rows := []\<rparr>"

text \<open>
  Modelled from the spec: the commands "in flight (written to the socket, awaiting a
  terminal status line)": the writes not yet answered.
\<close>

definition on_wire :: "'c CommandQueue \<Rightarrow> 'c list" where
  "on_wire s = drop (answered s) (socket s)"

text \<open>
  Modelled from the spec: \<^verbatim>\<open>submit\<close> of the transport's Command Queue. "If no command
  is in flight, write the new command to the socket immediately and mark it in flight;
  otherwise append to the FIFO tail."
\<close>

definition submit :: "'c \<Rightarrow> 'c CommandQueue \<Rightarrow> 'c CommandQueue" where
  "submit c s =
     (if \<not> list_ex in_flight (fifo s)
      then write_socket c
             (s\<lparr>fifo := fifo s @ [\<lparr>command = c, in_flight = True, settled = False\<rparr>]\<rparr>)
      else s\<lparr>fifo := fifo s @ [\<lparr>command = c, in_flight = False, settled = False\<rparr>]\<rparr>)"

text \<open>
  Modelled from the spec: a status line "terminates every command's response": when it
  arrives, the oldest write still awaiting its status line is answered.
\<close>

definition status_arrives :: "'c CommandQueue \<Rightarrow> 'c CommandQueue" where
  "status_arrives s =
     (if answered s < length (socket s) then s\<lparr>answered := Suc (answered s)\<rparr> else s)"

text \<open>
  Modelled from the spec: \<^verbatim>\<open>onStatusLine\<close> of the transport's Command Queue. It
  "completes the head-of-queue PendingCommand using all ResultRecord rows accumulated
  since it was put in flight, removes it, and if the queue is non-empty, writes the next
  command and marks it in flight"; code 0 is success, any other code a CommandError with
  that code and message. The status line of a command that has timed out is late: the
  implementation "must still accept and discard the eventual late StatusLine rather than
  misattributing it to a different queued command", so it completes nothing. The
  specification says nothing of a status line that arrives when nothing is pending: the
  queue is left as it is.
\<close>

definition onStatusLine :: "StatusLine \<Rightarrow> 'c CommandQueue \<Rightarrow> 'c CommandQueue" where
  "onStatusLine st s =
     (case fifo s of
        [] \<Rightarrow> s
      | p # rest \<Rightarrow>
          (let done =
                 (if settled p then completions s
                  else completions s @
                    [(command p,
                      if code st = 0 then Success (rows s)
                      else CommandError (code st) (message st))])
           in case rest of
                [] \<Rightarrow> s\<lparr>fifo := [], rows := [], completions := done\<rparr>
              | n # rest' \<Rightarrow>
                  write_socket (command n)
                    (s\<lparr>fifo := n\<lparr>in_flight := True\<rparr> # rest', completions := done\<rparr>)))"

text \<open>
  Modelled from the spec: "a command with no StatusLine within a configured timeout
  should fail its completion handle with a TimeoutError". The command concerned is the
  one in flight (a command still waiting has not been written and awaits no status
  line). The specification writes the next command only in \<^verbatim>\<open>submit\<close> and in
  \<^verbatim>\<open>onStatusLine\<close>: the timed-out command stays at the head, settled, until its late
  status line arrives.
\<close>

definition onTimeout :: "'c CommandQueue \<Rightarrow> 'c CommandQueue" where
  "onTimeout s =
     (case fifo s of
        [] \<Rightarrow> s
      | p # rest \<Rightarrow>
          if in_flight p \<and> \<not> settled p
          then s\<lparr>fifo := p\<lparr>settled := True\<rparr> # rest,
                 completions := completions s @ [(command p, TimeoutError)]\<rparr>
          else s)"

text \<open>
  Modelled from the spec: a line that is neither a notification nor a status line "is
  accumulated as a ResultRecord row for the current in-flight command". With no command
  in flight, or with one that has timed out, there is no result to add the row to.
\<close>

definition onRow :: "string \<Rightarrow> 'c CommandQueue \<Rightarrow> 'c CommandQueue" where
  "onRow r s =
     (case fifo s of
        [] \<Rightarrow> s
      | p # rest \<Rightarrow>
          if in_flight p \<and> \<not> settled p then s\<lparr>rows := rows s @ [r]\<rparr> else s)"

text \<open>
  Modelled from the spec: \<^verbatim>\<open>onTeardown\<close> of the transport's Command Queue. It "fails
  every PendingCommand (in flight and queued) with a ConnectionClosed error, in FIFO
  order, then clears the queue". A command whose completion handle has already failed
  with a timeout is not pending any more. The socket is gone: nothing written to it
  awaits a status line.
\<close>

definition onTeardown :: "'c CommandQueue \<Rightarrow> 'c CommandQueue" where
  "onTeardown s =
     s\<lparr>fifo := [], rows := [], answered := length (socket s),
       completions := completions s @
         map (\<lambda>p. (command p, ConnectionClosed)) (filter (\<lambda>p. \<not> settled p) (fifo s))\<rparr>"

text \<open>
  Modelled from the spec: what reaches the transport's Command Queue, one event at a
  time. A notification is routed to its subscribers and leaves the queue alone.
\<close>

datatype 'c event =
    Submit 'c
  | Row string
  | Status StatusLine
  | Notification string
  | Timeout
  | Teardown

fun step :: "'c CommandQueue \<Rightarrow> 'c event \<Rightarrow> 'c CommandQueue" where
  "step s (Submit c) = submit c s"
| "step s (Row r) = onRow r s"
| "step s (Status st) = onStatusLine st (status_arrives s)"
| "step s (Notification n) = s"
| "step s Timeout = onTimeout s"
| "step s Teardown = onTeardown s"

definition run :: "'c event list \<Rightarrow> 'c CommandQueue" where
  "run evs = foldl step empty_queue evs"

fun submitted :: "'c event list \<Rightarrow> 'c list" where
  "submitted [] = []"
| "submitted (Submit c # evs) = c # submitted evs"
| "submitted (e # evs) = submitted evs"

text \<open>
  The commands whose completion has been observed, those marked in flight, those still in
  the queue, and those whose completion is still to come.
\<close>

definition completed :: "'c CommandQueue \<Rightarrow> 'c list" where
  "completed s = map fst (completions s)"

definition flying :: "'c CommandQueue \<Rightarrow> 'c list" where
  "flying s = map command (filter in_flight (fifo s))"

definition waiting :: "'c CommandQueue \<Rightarrow> 'c list" where
  "waiting s = map command (fifo s)"

definition pending :: "'c CommandQueue \<Rightarrow> 'c list" where
  "pending s = map command (filter (\<lambda>p. \<not> settled p) (fifo s))"

section \<open>Stating the properties\<close>

text \<open>
  The record \<^verbatim>\<open>banAdd\<close> is expected to build: a field for each of the four optional
  parameters that is truthy, in the order of the assignments, then \<^verbatim>\<open>banreason\<close>.
\<close>

definition optional_field :: "string \<Rightarrow> jsval \<Rightarrow> (string \<times> jsval) list" where
  "optional_field k v = (if truthy v then [(k, v)] else [])"

definition banAdd_record ::
  "jsval \<Rightarrow> jsval \<Rightarrow> jsval \<Rightarrow> jsval \<Rightarrow> jsval \<Rightarrow> (string \<times> jsval) list" where
  "banAdd_record ip name uid time reason =
     optional_field ''ip'' ip @ optional_field ''name'' name
     @ optional_field ''uid'' uid @ optional_field ''time'' time
     @ [(''banreason'', js_or reason (Str ''''))]"

text \<open>
  The caches after a call, compared with the caches before it: the four caches of the
  selected server are empty and the servers cache is the old one, or all five are the
  old ones.
\<close>

definition cleaned :: "TeamSpeak3 \<Rightarrow> TeamSpeak3 \<Rightarrow> bool" where
  "cleaned this this' =
     (clients this' = Arr [] \<and> channels this' = Arr [] \<and> servergroups this' = Arr []
      \<and> channelgroups this' = Arr [] \<and> servers this' = servers this)"

definition untouched :: "TeamSpeak3 \<Rightarrow> TeamSpeak3 \<Rightarrow> bool" where
  "untouched this this' =
     (clients this' = clients this \<and> channels this' = channels this
      \<and> servergroups this' = servergroups this \<and> channelgroups this' = channelgroups this
      \<and> servers this' = servers this)"

text \<open>
  The invariant of the command queue: a non-empty queue has its head in flight and
  nothing else, only the head can have timed out, and the writes still awaiting their
  status line are the commands marked in flight.
\<close>

definition head_only :: "'c CommandQueue \<Rightarrow> bool" where
  "head_only s =
     ((case fifo s of
         [] \<Rightarrow> True
       | p # rest \<Rightarrow> in_flight p \<and> \<not> list_ex in_flight rest \<and> \<not> list_ex settled rest)
      \<and> answered s \<le> length (socket s)
      \<and> on_wire s = flying s)"

section \<open>Concrete servers and instances\<close>

text \<open>
  Three servers (one never answers, one accepts every command with no rows, one refuses
  every command), an instance with empty caches and one with an entry in every cache, and
  \<^verbatim>\<open>parseInt\<close> on numbers (an integer number parses to itself; it is used on numbers
  and on \<^verbatim>\<open>undefined\<close> only, which parses to NaN).
\<close>

definition silent :: server where
  "silent q args = Pending"

definition accepting :: server where
  "accepting q args = Fulfilled (Arr [])"

definition refusing :: server where
  "refusing q args = Rejected (Err ''Error'' (Str ''invalid parameter''))"

definition blank :: TeamSpeak3 where
  "blank = \<lparr>config = [], clients = Obj [], channels = Obj [], servergroups = Obj [],
             channelgroups = Obj [], servers = Obj [], ts3 = [], transfers = []\<rparr>"

definition populated :: TeamSpeak3 where
  "populated =
     \<lparr>config = [(''host'', Str ''127.0.0.1'')],
      clients = Obj [(''1'', Obj [(''clid'', Num 1)])],
      channels = Obj [(''5'', Obj [(''cid'', Num 5)])],
      servergroups = Obj [(''6'', Obj [(''sgid'', Num 6)])],
      channelgroups = Obj [(''8'', Obj [(''cgid'', Num 8)])],
      servers = Obj [(''1'', Obj [(''virtualserver_id'', Num 1)])],
      ts3 = [], transfers = []\<rparr>"

definition parseInt_number :: "jsval \<Rightarrow> int option" where
  "parseInt_number v = (case v of Num n \<Rightarrow> Some n | _ \<Rightarrow> None)"

section \<open>Auxiliary facts\<close>

lemma executed_append: "executed (q @ [Execute args]) = executed q @ [args]"
  by (induction q rule: executed.induct) simp_all

lemma ts3_execute: "ts3 (snd (execute srv args this)) = ts3 this @ [Execute args]"
  by (simp add: execute_def TS3Query_execute_def)

lemma keepalive_calls_append:
  "keepalive_calls (p @ q) = keepalive_calls p + keepalive_calls q"
  by (induction p rule: keepalive_calls.induct) simp_all

lemma antispam_calls_append:
  "antispam_calls (p @ q) = antispam_calls p @ antispam_calls q"
  by (induction p rule: antispam_calls.induct) simp_all

lemma keepalive_calls_handlers: "keepalive_calls handlers = 0"
  by (simp add: handlers_def)

lemma antispam_calls_handlers: "antispam_calls handlers = []"
  by (simp add: handlers_def)

lemma own_simps:
  "own ((k, v) # kvs) k' = (if k = k' then v else own kvs k')"
  "own [] k' = Undefined"
  by (simp_all add: own_def)

lemma own_absent: "\<not> has_prop kvs k \<Longrightarrow> own kvs k = Undefined"
  unfolding own_def has_prop_def using map_of_eq_None_iff [of kvs k] by simp

lemma has_prop_simps:
  "has_prop [] k' = False"
  "has_prop ((k, v) # kvs) k' = (k = k' \<or> has_prop kvs k')"
  "has_prop (kvs @ kvs') k' = (has_prop kvs k' \<or> has_prop kvs' k')"
  by (auto simp add: has_prop_def)

lemma has_prop_optional_field:
  "has_prop (optional_field k v) k' = (k = k' \<and> truthy v)"
  by (simp add: optional_field_def has_prop_simps)

text \<open>
  On an object the constructor never throws, and the calls it makes on the transport
  are: the construction, \<^verbatim>\<open>keepAlive\<close> if asked for, \<^verbatim>\<open>antiSpam\<close> if asked for, and
  the registration of the handlers.
\<close>

lemma constructor_Obj:
  "\<exists>this. constructor parseInt (Obj kvs) = Inr this
     \<and> ts3 this =
         [New [js_or (own kvs ''host'') (Str ''127.0.0.1''),
               js_or (number (parseInt (own kvs ''queryport''))) (Num 10011),
               js_or (own kvs ''protocol'') (Str ''raw''),
               js_or (own kvs ''username'') (Bool False),
               js_or (own kvs ''password'') (Bool False)]]
         @ (if truthy (own kvs ''keepalive'') then [KeepAlive] else [])
         @ (if truthy (own kvs ''antispam'')
            then [AntiSpam (js_or (number (parseInt (own kvs ''antispamtimer''))) (Num 350))]
            else [])
         @ handlers"
  by (simp add: constructor_def default_param_def bind_def Let_def own_simps)

lemma constructor_Undefined: "constructor parseInt Undefined = constructor parseInt (Obj [])"
  by (simp add: constructor_def default_param_def)

lemma banAdd_props:
  "banAdd srv ip name uid time reason this
     = execute srv [Str ''banadd'', Obj (banAdd_record ip name uid time reason)] this"
  by (simp add: banAdd_def banAdd_record_def optional_field_def)

lemma cacheCleanUp_execute:
  "fst (cacheCleanUp (execute srv args this)) = fst (execute srv args this)
   \<and> ts3 (snd (cacheCleanUp (execute srv args this))) = ts3 this @ [Execute args]
   \<and> (\<forall>res. fst (cacheCleanUp (execute srv args this)) = Fulfilled res \<longrightarrow>
         cleaned this (snd (cacheCleanUp (execute srv args this))))
   \<and> (\<forall>e. fst (execute srv args this) = Rejected e \<longrightarrow>
         untouched this (snd (cacheCleanUp (execute srv args this))))
   \<and> (fst (execute srv args this) = Pending \<longrightarrow>
         untouched this (snd (cacheCleanUp (execute srv args this))))"
  by (auto simp add: cacheCleanUp_def execute_def TS3Query_execute_def cleaned_def untouched_def
        split: promise.splits)

subsection \<open>The command queue\<close>

lemma head_only_empty: "head_only empty_queue"
  by (simp add: head_only_def empty_queue_def on_wire_def flying_def)

lemma head_only_submit: "head_only s \<Longrightarrow> head_only (submit c s)"
  by (auto simp add: head_only_def submit_def write_socket_def on_wire_def flying_def
        split: list.splits)

lemma on_wire_at_most_one: "head_only s \<Longrightarrow> length (on_wire s) \<le> 1"
  by (auto simp add: head_only_def flying_def list_ex_iff filter_empty_conv
        split: list.splits)

lemma status_arrives_answered:
  assumes "head_only s"
  shows "answered (status_arrives s) = length (socket s)"
proof -
  have "length (socket s) - answered s \<le> 1"
    using on_wire_at_most_one [OF assms] by (simp add: on_wire_def)
  moreover have "answered s \<le> length (socket s)"
    using assms by (simp add: head_only_def)
  ultimately show ?thesis
    by (auto simp add: status_arrives_def)
qed

lemma status_arrives_rest:
  "fifo (status_arrives s) = fifo s \<and> socket (status_arrives s) = socket s
   \<and> completions (status_arrives s) = completions s \<and> rows (status_arrives s) = rows s"
  by (simp add: status_arrives_def)

lemma head_only_status:
  assumes "head_only s"
  shows "head_only (onStatusLine st (status_arrives s))"
proof -
  let ?t = "status_arrives s"
  have a: "answered ?t = length (socket ?t)"
    using status_arrives_answered [OF assms] status_arrives_rest [of s] by simp
  have q: "case fifo ?t of
             [] \<Rightarrow> True
           | p # rest \<Rightarrow> in_flight p \<and> \<not> list_ex in_flight rest \<and> \<not> list_ex settled rest"
    using assms status_arrives_rest [of s] by (simp add: head_only_def)
  show ?thesis
    using a q
    by (auto simp add: head_only_def onStatusLine_def write_socket_def on_wire_def
          flying_def Let_def list_ex_iff filter_empty_conv split: list.splits)
qed

lemma head_only_onTimeout: "head_only s \<Longrightarrow> head_only (onTimeout s)"
  by (auto simp add: head_only_def onTimeout_def on_wire_def flying_def split: list.splits)

lemma head_only_onRow: "head_only s \<Longrightarrow> head_only (onRow r s)"
  by (auto simp add: head_only_def onRow_def on_wire_def flying_def split: list.splits)

lemma head_only_onTeardown: "head_only s \<Longrightarrow> head_only (onTeardown s)"
  by (simp add: head_only_def onTeardown_def on_wire_def flying_def)

lemma head_only_step: "head_only s \<Longrightarrow> head_only (step s e)"
  by (cases e)
     (simp_all add: head_only_submit head_only_status head_only_onTimeout head_only_onRow
        head_only_onTeardown)

lemma run_snoc: "run (evs @ [e]) = step (run evs) e"
  by (simp add: run_def)

lemma head_only_run: "head_only (run evs)"
proof (induction evs rule: rev_induct)
  case Nil
  show ?case by (simp add: run_def head_only_empty)
next
  case (snoc e evs)
  then show ?case by (simp add: run_snoc head_only_step)
qed

lemma head_only_flying: "head_only s \<Longrightarrow> flying s = take 1 (waiting s)"
  by (auto simp add: head_only_def flying_def waiting_def list_ex_iff filter_empty_conv
        split: list.splits)

lemma head_only_on_wire: "head_only s \<Longrightarrow> on_wire s = flying s"
  by (simp add: head_only_def)

lemma submitted_snoc:
  "submitted (evs @ [e]) = submitted evs @ (case e of Submit c \<Rightarrow> [c] | _ \<Rightarrow> [])"
  by (induction evs rule: submitted.induct) (simp_all split: event.splits)

lemma submitted_append: "submitted (evs @ evs') = submitted evs @ submitted evs'"
  by (induction evs rule: submitted.induct) simp_all

lemma order_submit:
  "completed (submit c s) @ pending (submit c s) = completed s @ pending s @ [c]"
  by (simp add: completed_def pending_def submit_def write_socket_def)

lemma order_status:
  "completed (onStatusLine st (status_arrives s)) @ pending (onStatusLine st (status_arrives s))
     = completed s @ pending s"
  by (auto simp add: completed_def pending_def onStatusLine_def status_arrives_def write_socket_def
        Let_def split: list.splits)

lemma order_onTimeout:
  "completed (onTimeout s) @ pending (onTimeout s) = completed s @ pending s"
  by (auto simp add: completed_def pending_def onTimeout_def split: list.splits)

lemma order_onRow: "completed (onRow r s) @ pending (onRow r s) = completed s @ pending s"
  by (auto simp add: completed_def pending_def onRow_def split: list.splits)

lemma order_onTeardown:
  "completed (onTeardown s) @ pending (onTeardown s) = completed s @ pending s"
  by (simp add: completed_def pending_def onTeardown_def comp_def)

lemma order_step:
  "completed (step s e) @ pending (step s e)
     = completed s @ pending s @ (case e of Submit c \<Rightarrow> [c] | _ \<Rightarrow> [])"
  by (cases e)
     (simp_all add: order_submit order_status order_onTimeout order_onRow order_onTeardown)

lemma order_run: "completed (run evs) @ pending (run evs) = submitted evs"
proof (induction evs rule: rev_induct)
  case Nil
  show ?case by (simp add: run_def empty_queue_def completed_def pending_def)
next
  case (snoc e evs)
  have "completed (run (evs @ [e])) @ pending (run (evs @ [e]))
          = completed (run evs) @ pending (run evs) @ (case e of Submit c \<Rightarrow> [c] | _ \<Rightarrow> [])"
    by (simp only: run_snoc order_step)
  also have "\<dots> = submitted (evs @ [e])"
    using snoc.IH by (simp add: submitted_snoc)
  finally show ?case .
qed

section \<open>Ordering of completions\<close>

text \<open>
  C1. For every sequence of events at the command queue (submissions, result rows,
  status lines, notifications, timeouts, teardowns) and at every point \<open>n\<close> of it: at
  most one command has been written to the socket and still awaits its terminal status
  line; it is the command marked in flight, the oldest one in the queue; the commands
  whose completion has been observed so far, followed by those whose completion is still
  to come, are exactly the commands submitted so far, in the order of submission; so the
  completions observed so far are an initial segment of the submissions.
\<close>

theorem completions_in_submission_order:
  "length (on_wire (run (take n evs))) \<le> 1
   \<and> on_wire (run (take n evs)) = flying (run (take n evs))
   \<and> flying (run (take n evs)) = take 1 (waiting (run (take n evs)))
   \<and> completed (run (take n evs)) @ pending (run (take n evs)) = submitted (take n evs)
   \<and> (\<exists>later. submitted evs = completed (run (take n evs)) @ later)"
proof -
  have w: "on_wire (run (take n evs)) = flying (run (take n evs))"
    by (rule head_only_on_wire [OF head_only_run])
  have f: "flying (run (take n evs)) = take 1 (waiting (run (take n evs)))"
    by (rule head_only_flying [OF head_only_run])
  have o: "completed (run (take n evs)) @ pending (run (take n evs)) = submitted (take n evs)"
    by (rule order_run)
  have "submitted evs = submitted (take n evs) @ submitted (drop n evs)"
    by (simp add: submitted_append [symmetric])
  then have "submitted evs
      = completed (run (take n evs)) @ (pending (run (take n evs)) @ submitted (drop n evs))"
    using o by simp
  then have p: "\<exists>later. submitted evs = completed (run (take n evs)) @ later"
    by blast
  show ?thesis using w f o p by simp
qed

text \<open>
  Four commands: the first succeeds, the second times out and its late status line is
  discarded, the third is refused by the server, the fourth is cut off by a teardown.
  After five events the first is completed and the second is on the socket.
\<close>

theorem completions_in_submission_order_witness:
  "on_wire (run (take 5
      [Submit ''version'', Submit ''whoami'', Submit ''hostinfo'', Row ''version=3.0.13'',
       Status \<lparr>code = 0, message = ''ok''\<rparr>, Timeout, Notification ''notifyclientmoved'',
       Submit ''quit'', Status \<lparr>code = 0, message = ''ok''\<rparr>,
       Status \<lparr>code = 1538, message = ''invalid parameter''\<rparr>, Teardown])) = [''whoami'']
   \<and> completed (run (take 5
      [Submit ''version'', Submit ''whoami'', Submit ''hostinfo'', Row ''version=3.0.13'',
       Status \<lparr>code = 0, message = ''ok''\<rparr>, Timeout, Notification ''notifyclientmoved'',
       Submit ''quit'', Status \<lparr>code = 0, message = ''ok''\<rparr>,
       Status \<lparr>code = 1538, message = ''invalid parameter''\<rparr>, Teardown])) = [''version'']
   \<and> completions (run
      [Submit ''version'', Submit ''whoami'', Submit ''hostinfo'', Row ''version=3.0.13'',
       Status \<lparr>code = 0, message = ''ok''\<rparr>, Timeout, Notification ''notifyclientmoved'',
       Submit ''quit'', Status \<lparr>code = 0, message = ''ok''\<rparr>,
       Status \<lparr>code = 1538, message = ''invalid parameter''\<rparr>, Teardown])
     = [(''version'', Success [''version=3.0.13'']), (''whoami'', TimeoutError),
        (''hostinfo'', CommandError 1538 ''invalid parameter''),
        (''quit'', ConnectionClosed)]
   \<and> socket (run
      [Submit ''version'', Submit ''whoami'', Submit ''hostinfo'', Row ''version=3.0.13'',
       Status \<lparr>code = 0, message = ''ok''\<rparr>, Timeout, Notification ''notifyclientmoved'',
       Submit ''quit'', Status \<lparr>code = 0, message = ''ok''\<rparr>,
       Status \<lparr>code = 1538, message = ''invalid parameter''\<rparr>, Teardown])
     = [''version'', ''whoami'', ''hostinfo'', ''quit'']"
  using completions_in_submission_order [of 5
      "[Submit ''version'', Submit ''whoami'', Submit ''hostinfo'', Row ''version=3.0.13'',
        Status \<lparr>code = 0, message = ''ok''\<rparr>, Timeout, Notification ''notifyclientmoved'',
        Submit ''quit'', Status \<lparr>code = 0, message = ''ok''\<rparr>,
        Status \<lparr>code = 1538, message = ''invalid parameter''\<rparr>, Teardown]"]
  by (simp add: run_def empty_queue_def submit_def write_socket_def status_arrives_def
        onStatusLine_def onTimeout_def onRow_def onTeardown_def on_wire_def
        flying_def completed_def waiting_def pending_def)

section \<open>The unbound identifier of messageUpdate\<close>

text \<open>
  C2. \<^verbatim>\<open>messageUpdate(id, read)\<close> reads the identifier \<^verbatim>\<open>flag\<close>, which is not one of
  its parameters. Where the global object does not define \<^verbatim>\<open>flag\<close> either, every call,
  whatever \<^verbatim>\<open>id\<close> and \<^verbatim>\<open>read\<close> are, throws a ReferenceError, and no command is executed.
\<close>

theorem messageUpdate_unbound_flag:
  assumes "globals ''flag'' = None"
  shows "map_of (messageUpdate_params id' read) ''flag'' = None
       \<and> messageUpdate globals srv id' read this = Inl (ReferenceError ''flag is not defined'')"
  using assms
  by (simp add: messageUpdate_def messageUpdate_params_def resolve_def bind_def module_scope_def)

theorem messageUpdate_unbound_flag_witness:
  "messageUpdate Map.empty accepting (Num 3) (Num 1) blank
     = Inl (ReferenceError ''flag is not defined'')"
  using messageUpdate_unbound_flag [of Map.empty "Num 3" "Num 1" accepting blank] by simp

section \<open>Forwarding to the transport\<close>

text \<open>
  C3. For every command name, argument record and flag list, the facade's execute
  returns exactly what the transport's execute returns on the same three arguments,
  which it receives unchanged and in the same order; nothing else of the facade changes.
\<close>

theorem execute_forwards:
  "fst (execute srv [commandName, argumentsRecord, flagList] this)
     = fst (TS3Query_execute srv [commandName, argumentsRecord, flagList] (ts3 this))
   \<and> snd (execute srv [commandName, argumentsRecord, flagList] this)
     = this\<lparr>ts3 := snd (TS3Query_execute srv [commandName, argumentsRecord, flagList] (ts3 this))\<rparr>
   \<and> ts3 (snd (execute srv [commandName, argumentsRecord, flagList] this))
     = ts3 this @ [Execute [commandName, argumentsRecord, flagList]]"
  by (simp add: execute_def TS3Query_execute_def)

text \<open>The example of the specification, sent to a server that accepts it with no rows.\<close>

theorem execute_forwards_witness:
  "execute accepting
     [Str ''servergroupaddperm'', Obj [(''sgid'', Num 6), (''permid'', Num 1)], Arr []] blank
     = (Fulfilled (Arr []),
        blank\<lparr>ts3 := [Execute [Str ''servergroupaddperm'',
                            Obj [(''sgid'', Num 6), (''permid'', Num 1)], Arr []]]\<rparr>)"
  using execute_forwards
    [of accepting "Str ''servergroupaddperm''" "Obj [(''sgid'', Num 6), (''permid'', Num 1)]"
       "Arr []" blank]
  by (simp add: execute_def TS3Query_execute_def accepting_def blank_def)

section \<open>The record of serverGroupAddPerm\<close>

text \<open>
  C4. For every sgid, perm, value, skip and negate, \<^verbatim>\<open>serverGroupAddPerm\<close> with
  \<^verbatim>\<open>permsid = false\<close> (given, or left out: false is the default) executes
  \<^verbatim>\<open>servergroupaddperm\<close> with the record of exactly the five fields sgid, permid,
  permvalue, permskip and permnegated, in this order, holding the parameters' values (skip
  and negate are 0 when the caller leaves them out); with \<^verbatim>\<open>permsid = true\<close>, and with
  any other truthy value, the key permid is replaced by permsid. On the values of the
  specification's example, with the optional arguments given or left out, the record is
  sgid=6 permid=1 permvalue=25 permskip=0 permnegated=0.
\<close>

theorem serverGroupAddPerm_record:
  "serverGroupAddPerm srv sgid perm val permsid skip negate this
     = execute srv [Str ''servergroupaddperm'',
         Obj [(''sgid'', sgid),
              (if truthy (default_param permsid (Bool False)) then ''permsid'' else ''permid'',
               perm),
              (''permvalue'', val),
              (''permskip'', default_param skip (Num 0)),
              (''permnegated'', default_param negate (Num 0))]] this
   \<and> serverGroupAddPerm srv sgid perm val (Bool False) skip negate this
     = execute srv [Str ''servergroupaddperm'',
         Obj [(''sgid'', sgid), (''permid'', perm), (''permvalue'', val),
              (''permskip'', default_param skip (Num 0)),
              (''permnegated'', default_param negate (Num 0))]] this
   \<and> serverGroupAddPerm srv sgid perm val Undefined skip negate this
     = execute srv [Str ''servergroupaddperm'',
         Obj [(''sgid'', sgid), (''permid'', perm), (''permvalue'', val),
              (''permskip'', default_param skip (Num 0)),
              (''permnegated'', default_param negate (Num 0))]] this
   \<and> serverGroupAddPerm srv sgid perm val (Bool True) skip negate this
     = execute srv [Str ''servergroupaddperm'',
         Obj [(''sgid'', sgid), (''permsid'', perm), (''permvalue'', val),
              (''permskip'', default_param skip (Num 0)),
              (''permnegated'', default_param negate (Num 0))]] this
   \<and> executed (ts3 (snd (serverGroupAddPerm srv (Num 6) (Num 1) (Num 25) (Bool False)
                           (Num 0) (Num 0) this)))
     = executed (ts3 this) @
         [[Str ''servergroupaddperm'',
           Obj [(''sgid'', Num 6), (''permid'', Num 1), (''permvalue'', Num 25),
                (''permskip'', Num 0), (''permnegated'', Num 0)]]]
   \<and> executed (ts3 (snd (serverGroupAddPerm srv (Num 6) (Num 1) (Num 25) Undefined
                           Undefined Undefined this)))
     = executed (ts3 this) @
         [[Str ''servergroupaddperm'',
           Obj [(''sgid'', Num 6), (''permid'', Num 1), (''permvalue'', Num 25),
                (''permskip'', Num 0), (''permnegated'', Num 0)]]]"
  by (simp add: serverGroupAddPerm_def default_param_def ts3_execute executed_append)

text \<open>
  A permission given by name, with skip and negate left out; and the call
  \<^verbatim>\<open>serverGroupAddPerm(6, 1, 25)\<close>.
\<close>

theorem serverGroupAddPerm_record_witness:
  "executed (ts3 (snd (serverGroupAddPerm silent (Num 6) (Str ''i_icon_id'') (Num 25)
                         (Bool True) Undefined Undefined blank)))
     = [[Str ''servergroupaddperm'',
         Obj [(''sgid'', Num 6), (''permsid'', Str ''i_icon_id''), (''permvalue'', Num 25),
              (''permskip'', Num 0), (''permnegated'', Num 0)]]]
   \<and> executed (ts3 (snd (serverGroupAddPerm silent (Num 6) (Num 1) (Num 25)
                         Undefined Undefined Undefined blank)))
     = [[Str ''servergroupaddperm'',
         Obj [(''sgid'', Num 6), (''permid'', Num 1), (''permvalue'', Num 25),
              (''permskip'', Num 0), (''permnegated'', Num 0)]]]"
  using serverGroupAddPerm_record
    [of silent "Num 6" "Str ''i_icon_id''" "Num 25" "Bool True" Undefined Undefined blank]
    serverGroupAddPerm_record
    [of silent "Num 6" "Num 1" "Num 25" Undefined Undefined Undefined blank]
  by (simp add: ts3_execute executed_append blank_def default_param_def)

section \<open>The antispam interval\<close>

text \<open>
  C5. When the client is constructed with antispam enabled, the interval handed to the
  antispam gate is 350 if \<^verbatim>\<open>parseInt(config.antispamtimer)\<close> is NaN or 0, in particular
  if the configuration has no antispamtimer (\<^verbatim>\<open>parseInt(undefined)\<close> being NaN), and it
  is \<open>n\<close> if the value parses to a nonzero integer \<open>n\<close>.
\<close>

theorem constructor_antispam_interval:
  assumes "truthy (own kvs ''antispam'')"
  shows "\<exists>this. constructor parseInt (Obj kvs) = Inr this
      \<and> (parseInt (own kvs ''antispamtimer'') = None \<longrightarrow>
            antispam_calls (ts3 this) = [Num 350])
      \<and> (parseInt (own kvs ''antispamtimer'') = Some 0 \<longrightarrow>
            antispam_calls (ts3 this) = [Num 350])
      \<and> (\<forall>n. parseInt (own kvs ''antispamtimer'') = Some n \<and> n \<noteq> 0 \<longrightarrow>
            antispam_calls (ts3 this) = [Num n])
      \<and> (\<not> has_prop kvs ''antispamtimer'' \<and> parseInt Undefined = None \<longrightarrow>
            antispam_calls (ts3 this) = [Num 350])"
proof -
  obtain this where t: "constructor parseInt (Obj kvs) = Inr this"
    and q: "ts3 this =
         [New [js_or (own kvs ''host'') (Str ''127.0.0.1''),
               js_or (number (parseInt (own kvs ''queryport''))) (Num 10011),
               js_or (own kvs ''protocol'') (Str ''raw''),
               js_or (own kvs ''username'') (Bool False),
               js_or (own kvs ''password'') (Bool False)]]
         @ (if truthy (own kvs ''keepalive'') then [KeepAlive] else [])
         @ (if truthy (own kvs ''antispam'')
            then [AntiSpam (js_or (number (parseInt (own kvs ''antispamtimer''))) (Num 350))]
            else [])
         @ handlers"
    using constructor_Obj by blast
  have a: "antispam_calls (ts3 this)
             = [js_or (number (parseInt (own kvs ''antispamtimer''))) (Num 350)]"
    using assms by (simp add: q antispam_calls_append antispam_calls_handlers)
  have "\<not> has_prop kvs ''antispamtimer'' \<Longrightarrow> own kvs ''antispamtimer'' = Undefined"
    by (rule own_absent)
  then show ?thesis using t a
    by (auto simp add: js_or_def number_def)
qed

text \<open>Antispam enabled with no timer, with a timer of 0, and with a timer of 500.\<close>

theorem constructor_antispam_interval_witness:
  "(\<exists>this. constructor parseInt_number (Obj [(''antispam'', Bool True)]) = Inr this
      \<and> antispam_calls (ts3 this) = [Num 350])
   \<and> (\<exists>this. constructor parseInt_number
               (Obj [(''antispam'', Bool True), (''antispamtimer'', Num 0)]) = Inr this
      \<and> antispam_calls (ts3 this) = [Num 350])
   \<and> (\<exists>this. constructor parseInt_number
               (Obj [(''antispam'', Bool True), (''antispamtimer'', Num 500)]) = Inr this
      \<and> antispam_calls (ts3 this) = [Num 500])"
  using constructor_antispam_interval [of "[(''antispam'', Bool True)]" parseInt_number]
    constructor_antispam_interval
      [of "[(''antispam'', Bool True), (''antispamtimer'', Num 0)]" parseInt_number]
    constructor_antispam_interval
      [of "[(''antispam'', Bool True), (''antispamtimer'', Num 500)]" parseInt_number]
  by (simp add: own_simps has_prop_simps parseInt_number_def)

section \<open>Keepalive and antispam are off unless asked for\<close>

text \<open>
  C6. The constructor calls \<^verbatim>\<open>keepAlive\<close> on the transport if and only if the caller's
  \<^verbatim>\<open>config.keepalive\<close> is truthy, and \<^verbatim>\<open>antiSpam\<close> if and only if
  \<^verbatim>\<open>config.antispam\<close> is truthy; with an empty configuration object, or with no
  configuration at all, it calls neither.
\<close>

theorem constructor_keepalive_antispam:
  "(\<exists>this. constructor parseInt (Obj kvs) = Inr this
      \<and> (0 < keepalive_calls (ts3 this)) = truthy (own kvs ''keepalive'')
      \<and> (antispam_calls (ts3 this) \<noteq> []) = truthy (own kvs ''antispam''))
   \<and> (\<exists>this. constructor parseInt (Obj []) = Inr this
      \<and> keepalive_calls (ts3 this) = 0 \<and> antispam_calls (ts3 this) = [])
   \<and> (\<exists>this. constructor parseInt Undefined = Inr this
      \<and> keepalive_calls (ts3 this) = 0 \<and> antispam_calls (ts3 this) = [])"
proof -
  obtain this where t: "constructor parseInt (Obj kvs) = Inr this"
    and q: "ts3 this =
         [New [js_or (own kvs ''host'') (Str ''127.0.0.1''),
               js_or (number (parseInt (own kvs ''queryport''))) (Num 10011),
               js_or (own kvs ''protocol'') (Str ''raw''),
               js_or (own kvs ''username'') (Bool False),
               js_or (own kvs ''password'') (Bool False)]]
         @ (if truthy (own kvs ''keepalive'') then [KeepAlive] else [])
         @ (if truthy (own kvs ''antispam'')
            then [AntiSpam (js_or (number (parseInt (own kvs ''antispamtimer''))) (Num 350))]
            else [])
         @ handlers"
    using constructor_Obj by blast
  have 1: "(0 < keepalive_calls (ts3 this)) = truthy (own kvs ''keepalive'')"
    by (simp add: q keepalive_calls_append keepalive_calls_handlers)
  have 2: "(antispam_calls (ts3 this) \<noteq> []) = truthy (own kvs ''antispam'')"
    by (simp add: q antispam_calls_append antispam_calls_handlers)
  obtain e where e: "constructor parseInt (Obj []) = Inr e"
    and qe: "ts3 e =
         [New [js_or (own [] ''host'') (Str ''127.0.0.1''),
               js_or (number (parseInt (own [] ''queryport''))) (Num 10011),
               js_or (own [] ''protocol'') (Str ''raw''),
               js_or (own [] ''username'') (Bool False),
               js_or (own [] ''password'') (Bool False)]]
         @ (if truthy (own [] ''keepalive'') then [KeepAlive] else [])
         @ (if truthy (own [] ''antispam'')
            then [AntiSpam (js_or (number (parseInt (own [] ''antispamtimer''))) (Num 350))]
            else [])
         @ handlers"
    using constructor_Obj by blast
  have 3: "keepalive_calls (ts3 e) = 0 \<and> antispam_calls (ts3 e) = []"
    by (simp add: qe own_simps keepalive_calls_append keepalive_calls_handlers
          antispam_calls_append antispam_calls_handlers)
  show ?thesis using t 1 2 e 3 constructor_Undefined [of parseInt] by auto
qed

text \<open>Keepalive asked for and antispam not: one call of \<^verbatim>\<open>keepAlive\<close>, none of \<^verbatim>\<open>antiSpam\<close>.\<close>

theorem constructor_keepalive_antispam_witness:
  "\<exists>this. constructor parseInt_number (Obj [(''keepalive'', Bool True)]) = Inr this
      \<and> 0 < keepalive_calls (ts3 this) \<and> antispam_calls (ts3 this) = []"
  using constructor_keepalive_antispam [of parseInt_number "[(''keepalive'', Bool True)]"]
  by (simp add: own_simps)

section \<open>Optional fields\<close>

text \<open>
  C7, as the code has it. In \<^verbatim>\<open>banAdd\<close> each of ip, name, uid and time is in the record
  if and only if the caller supplied a truthy value, and banreason is always in it
  (the reason, or the empty string). \<^verbatim>\<open>serverStop\<close> always passes a record with both sid
  and reasonmsg: reasonmsg holds msg, which is \<^verbatim>\<open>undefined\<close> when the caller leaves it out.
  \<^verbatim>\<open>complainAdd\<close> always passes a record with both cldbid and message: message is the
  empty string when the caller leaves it out.
\<close>

theorem optional_fields:
  "banAdd srv ip name uid time reason this
     = execute srv [Str ''banadd'', Obj (banAdd_record ip name uid time reason)] this
   \<and> has_prop (banAdd_record ip name uid time reason) ''ip'' = truthy ip
   \<and> has_prop (banAdd_record ip name uid time reason) ''name'' = truthy name
   \<and> has_prop (banAdd_record ip name uid time reason) ''uid'' = truthy uid
   \<and> has_prop (banAdd_record ip name uid time reason) ''time'' = truthy time
   \<and> has_prop (banAdd_record ip name uid time reason) ''banreason''
   \<and> serverStop srv sid msg this
     = execute srv [Str ''serverstop'', Obj [(''sid'', sid), (''reasonmsg'', msg)]] this
   \<and> has_prop [(''sid'', sid), (''reasonmsg'', msg)] ''reasonmsg''
   \<and> complainAdd srv dbid message' this
     = execute srv [Str ''complainadd'',
         Obj [(''cldbid'', dbid), (''message'', default_param message' (Str ''''))]] this
   \<and> complainAdd srv dbid Undefined this
     = execute srv [Str ''complainadd'', Obj [(''cldbid'', dbid), (''message'', Str '''')]] this"
  by (simp add: banAdd_props serverStop_def complainAdd_def default_param_def
        banAdd_record_def has_prop_simps has_prop_optional_field)

text \<open>A ban by name only, with no reason.\<close>

theorem optional_fields_witness:
  "executed (ts3 (snd (banAdd silent Undefined (Str ''troll'') Undefined Undefined Undefined
                         blank)))
     = [[Str ''banadd'', Obj [(''name'', Str ''troll''), (''banreason'', Str '''')]]]"
  using optional_fields
    [of silent Undefined "Str ''troll''" Undefined Undefined Undefined blank]
  by (simp add: ts3_execute executed_append blank_def banAdd_record_def optional_field_def
        js_or_def)

text \<open>
  C7, as stated, fails: \<^verbatim>\<open>serverStop(1)\<close> passes a record that has the field reasonmsg,
  and \<^verbatim>\<open>complainAdd(1)\<close> sends the field message with its default value.
\<close>

theorem unset_fields_are_sent:
  "executed (ts3 (snd (serverStop silent (Num 1) Undefined blank)))
     = [[Str ''serverstop'', Obj [(''sid'', Num 1), (''reasonmsg'', Undefined)]]]
   \<and> has_prop [(''sid'', Num 1), (''reasonmsg'', Undefined)] ''reasonmsg''
   \<and> executed (ts3 (snd (complainAdd silent (Num 1) Undefined blank)))
     = [[Str ''complainadd'', Obj [(''cldbid'', Num 1), (''message'', Str '''')]]]"
  by (simp add: serverStop_def complainAdd_def default_param_def ts3_execute executed_append
        blank_def has_prop_def)

section \<open>uploadFile\<close>

text \<open>
  C8. For every path, data, cid and cpw, \<^verbatim>\<open>uploadFile\<close> returns a promise rejected with
  the TypeError of calling \<^verbatim>\<open>split\<close> on \<^verbatim>\<open>undefined\<close>, and leaves the object as it was:
  no command is executed and no file transfer is created.
\<close>

theorem uploadFile_rejects:
  "uploadFile srv ftp rnd path data cid cpw this
     = (Rejected (TypeError ''Cannot read property split of undefined''), this)
   \<and> transfers (snd (uploadFile srv ftp rnd path data cid cpw this)) = transfers this
   \<and> ts3 (snd (uploadFile srv ftp rnd path data cid cpw this)) = ts3 this"
  by (simp add: uploadFile_def new_Promise_def split_method_def bind_def)

text \<open>An upload of five bytes to channel 1, against a server that accepts every command.\<close>

theorem uploadFile_rejects_witness:
  "uploadFile accepting (\<lambda>host port key data. Fulfilled Undefined) 4711
     (Str ''/icons/icon_1'') (Str ''hello'') (Num 1) (Str '''') populated
     = (Rejected (Err ''TypeError'' (Str ''Cannot read property split of undefined'')),
        populated)"
  using uploadFile_rejects
    [of accepting "\<lambda>host port key data. Fulfilled Undefined" 4711
       "Str ''/icons/icon_1''" "Str ''hello''" "Num 1" "Str ''''" populated]
  by (simp add: TypeError_def)

section \<open>complainDel\<close>

text \<open>
  C9. For every tdbid: when fdbid is a value other than false (and is not left out, which
  makes it false), \<^verbatim>\<open>complainDel\<close> executes \<^verbatim>\<open>complaindel\<close> with a record of tcldbid
  alone; when fdbid is false it executes \<^verbatim>\<open>complaindelall\<close> with the record
  \<^verbatim>\<open>{tcldbid: tdbid, fcldbid: false}\<close>.
\<close>

theorem complainDel_guard:
  "(fdbid \<noteq> Bool False \<and> fdbid \<noteq> Undefined \<longrightarrow>
      complainDel srv tdbid fdbid this
        = execute srv [Str ''complaindel'', Obj [(''tcldbid'', tdbid)]] this)
   \<and> (fdbid = Bool False \<or> fdbid = Undefined \<longrightarrow>
      complainDel srv tdbid fdbid this
        = execute srv [Str ''complaindelall'',
            Obj [(''tcldbid'', tdbid), (''fcldbid'', Bool False)]] this)"
  by (auto simp add: complainDel_def default_param_def)

text \<open>The complaint about client 12 filed by client 7, and all complaints about client 12.\<close>

theorem complainDel_guard_witness:
  "executed (ts3 (snd (complainDel silent (Num 12) (Num 7) blank)))
     = [[Str ''complaindel'', Obj [(''tcldbid'', Num 12)]]]
   \<and> executed (ts3 (snd (complainDel silent (Num 12) (Bool False) blank)))
     = [[Str ''complaindelall'', Obj [(''tcldbid'', Num 12), (''fcldbid'', Bool False)]]]"
  using complainDel_guard [of "Num 7" silent "Num 12" blank]
    complainDel_guard [of "Bool False" silent "Num 12" blank]
  by (simp add: ts3_execute executed_append blank_def)

section \<open>Cache clean-up\<close>

text \<open>
  C10. Each of \<^verbatim>\<open>logout\<close>, \<^verbatim>\<open>useByPort\<close> and \<^verbatim>\<open>useBySid\<close> executes its command and
  settles exactly as the command does. Whenever the call is fulfilled, the client,
  channel, server-group and channel-group caches are empty and the servers cache is
  unchanged; if the underlying command is rejected, or never settles, none of the five
  caches is modified.
\<close>

theorem cache_cleanup_frame:
  "fst (logout srv this) = fst (execute srv [Str ''logout''] this)
   \<and> ts3 (snd (logout srv this)) = ts3 this @ [Execute [Str ''logout'']]
   \<and> (\<forall>res. fst (logout srv this) = Fulfilled res \<longrightarrow>
         cleaned this (snd (logout srv this)))
   \<and> (\<forall>e. fst (execute srv [Str ''logout''] this) = Rejected e \<longrightarrow>
         untouched this (snd (logout srv this)))
   \<and> (fst (execute srv [Str ''logout''] this) = Pending \<longrightarrow>
         untouched this (snd (logout srv this)))
   \<and> fst (useByPort srv port this) = fst (execute srv [Str ''use'', Obj [(''port'', port)]] this)
   \<and> ts3 (snd (useByPort srv port this))
       = ts3 this @ [Execute [Str ''use'', Obj [(''port'', port)]]]
   \<and> (\<forall>res. fst (useByPort srv port this) = Fulfilled res \<longrightarrow>
         cleaned this (snd (useByPort srv port this)))
   \<and> (\<forall>e. fst (execute srv [Str ''use'', Obj [(''port'', port)]] this) = Rejected e \<longrightarrow>
         untouched this (snd (useByPort srv port this)))
   \<and> (fst (execute srv [Str ''use'', Obj [(''port'', port)]] this) = Pending \<longrightarrow>
         untouched this (snd (useByPort srv port this)))
   \<and> fst (useBySid srv sid this) = fst (execute srv [Str ''use'', Arr [sid]] this)
   \<and> ts3 (snd (useBySid srv sid this)) = ts3 this @ [Execute [Str ''use'', Arr [sid]]]
   \<and> (\<forall>res. fst (useBySid srv sid this) = Fulfilled res \<longrightarrow>
         cleaned this (snd (useBySid srv sid this)))
   \<and> (\<forall>e. fst (execute srv [Str ''use'', Arr [sid]] this) = Rejected e \<longrightarrow>
         untouched this (snd (useBySid srv sid this)))
   \<and> (fst (execute srv [Str ''use'', Arr [sid]] this) = Pending \<longrightarrow>
         untouched this (snd (useBySid srv sid this)))"
  unfolding logout_def useByPort_def useBySid_def
  using cacheCleanUp_execute [of srv "[Str ''logout'']" this]
    cacheCleanUp_execute [of srv "[Str ''use'', Obj [(''port'', port)]]" this]
    cacheCleanUp_execute [of srv "[Str ''use'', Arr [sid]]" this]
  by simp

text \<open>
  An instance with an entry in every cache, against a server that accepts every command,
  one that refuses every command and one that never answers.
\<close>

theorem cache_cleanup_frame_witness:
  "cleaned populated (snd (logout accepting populated))
   \<and> clients (snd (logout accepting populated)) = Arr []
   \<and> servers (snd (logout accepting populated)) = servers populated
   \<and> untouched populated (snd (logout refusing populated))
   \<and> clients (snd (logout refusing populated)) = Obj [(''1'', Obj [(''clid'', Num 1)])]
   \<and> untouched populated (snd (logout silent populated))
   \<and> fst (logout silent populated) = Pending
   \<and> cleaned populated (snd (useByPort accepting (Num 9987) populated))
   \<and> untouched populated (snd (useByPort refusing (Num 9987) populated))
   \<and> untouched populated (snd (useByPort silent (Num 9987) populated))
   \<and> cleaned populated (snd (useBySid accepting (Num 1) populated))
   \<and> untouched populated (snd (useBySid refusing (Num 1) populated))
   \<and> untouched populated (snd (useBySid silent (Num 1) populated))"
  using cache_cleanup_frame [of accepting populated "Num 9987" "Num 1"]
    cache_cleanup_frame [of refusing populated "Num 9987" "Num 1"]
    cache_cleanup_frame [of silent populated "Num 9987" "Num 1"]
  by (simp add: execute_def TS3Query_execute_def accepting_def refusing_def silent_def
        cleaned_def untouched_def populated_def logout_def cacheCleanUp_def)

end
